theory Spec2Isabelle
  imports Complex_Main "HOL-Library.AList"
begin

section \<open>JavaScript values and objects\<close>

text \<open>
  The program is TypeScript running on Node. The values it handles at run time are
  modelled by \<open>jsval\<close>: \<open>undefined\<close>, booleans, finite numbers, strings and plain
  objects (own enumerable properties in insertion order). \<open>JOther\<close> stands for every other
  value (\<open>null\<close>, arrays, functions, symbols, bigints, \<open>NaN\<close>, infinities): each schema
  of the program rejects all of them. Numbers are only compared and stored, never
  computed with, so a finite number is a rational.
\<close>

datatype jsval =
    JUndefined
  | JBool bool
  | JNum rat
  | JStr string
  | JObj "(string \<times> jsval) list"
  | JOther

type_synonym jsobject = "(string \<times> jsval) list"

text \<open>Property read \<open>o.k\<close> for the keys the program reads from its argument and from
  schema inputs; none of them is a property of \<open>Object.prototype\<close>.\<close>

definition obj_get :: "jsobject \<Rightarrow> string \<Rightarrow> jsval" where
  "obj_get obj k = (case map_of obj k of None \<Rightarrow> JUndefined | Some v \<Rightarrow> v)"

text \<open>The property names every object literal \<open>{}\<close> inherits from
  \<open>Object.prototype\<close>. The operator \<open>in\<close> answers true for them.\<close>

definition Object_prototype_keys :: "string list" where
  "Object_prototype_keys =
     [''constructor'', ''__defineGetter__'', ''__defineSetter__'', ''hasOwnProperty'',
      ''__lookupGetter__'', ''__lookupSetter__'', ''isPrototypeOf'',
      ''propertyIsEnumerable'', ''toString'', ''valueOf'', ''__proto__'',
      ''toLocaleString'']"

text \<open>\<open>key in target\<close>: an own property, or one inherited from the prototype.\<close>

definition key_in :: "string \<Rightarrow> jsobject \<Rightarrow> bool" where
  "key_in key target = (key \<in> fst ` set target \<or> key \<in> set Object_prototype_keys)"

text \<open>\<open>target[key]\<close>: the own property, else the inherited one (a function or the
  prototype object, \<open>JOther\<close>), else \<open>undefined\<close>.\<close>

definition get_prop :: "jsobject \<Rightarrow> string \<Rightarrow> jsval" where
  "get_prop target key =
     (case map_of target key of
        Some v \<Rightarrow> v
      | None \<Rightarrow> if key \<in> set Object_prototype_keys then JOther else JUndefined)"

section \<open>helper.ts: the config accumulator\<close>

text \<open>
  \<^verbatim>\<open>if (!(key in target)) { target[key] = value; }\<close>
  The mutation of \<open>target\<close> is returned as the new object; a new own property is added
  last, as JavaScript orders string keys.
\<close>

definition addToConfig :: "jsobject \<Rightarrow> string \<Rightarrow> jsval \<Rightarrow> jsobject" where
  "addToConfig target key v = (if \<not> key_in key target then target @ [(key, v)] else target)"

section \<open>Errors, effects and the outside world\<close>

text \<open>Every \<open>throw\<close> and every rejected promise of the program is a value of \<open>error\<close>.\<close>

datatype error =
    DiscriminatedUnionThrew
      \<comment> \<open>zod's \<open>Error('Invalid discriminated union option at index "1"')\<close>, thrown inside
          \<open>safeParse\<close> (main.ts line 188)\<close>
  | ValidationError \<comment> \<open>main.ts: \<open>throw new Error(z.prettifyError(userInput.error))\<close>\<close>
  | ConfigCheckError \<comment> \<open>main.ts: one of the three final \<open>configCheck\<close> throws\<close>
  | ParseRejected \<comment> \<open>a schema's \<open>.parse\<close> throwing (proxy.ts, geoData.ts)\<close>
  | NotInstalled \<comment> \<open>"Camoufox is Not Installed"\<close>
  | StatRejected string \<comment> \<open>\<open>fs.stat\<close> rejecting for the path (ENOENT and the like)\<close>
  | ReadRejected string \<comment> \<open>\<open>fs.readFile\<close> rejecting for the path\<close>
  | ReaderRejected \<comment> \<open>\<open>new Reader(buffer)\<close> throwing on a buffer that is no database\<close>
  | InvalidURL \<comment> \<open>\<open>new URL(proxy.server)\<close> throwing\<close>
  | UnsupportedProxyProtocol \<comment> \<open>"Unsupported Proxy Protocol, ..."\<close>
  | RequestRejected string \<comment> \<open>\<open>customKy.get(service)\<close> rejecting for the service\<close>
  | DetectionFailed \<comment> \<open>"Failed to automatically get public IP"\<close>
  | NoValidIP \<comment> \<open>"Geolocation and Locale error, A valid IP address is requied"\<close>
  | DatabaseNotFound \<comment> \<open>"Geolocation and Locale error, '.mmdb' file not found"\<close>
  | NoGeoData string \<comment> \<open>"... No geoData found for current IP: ${pubIP}"\<close>
  | UnknownCountryCode \<comment> \<open>"Geolocation and Locale error, Unknown iso country code"\<close>

text \<open>The input and output operations the program awaits, in the order it performs
  them (\<open>HttpGet\<close> is one call of \<open>customKy.get\<close>). An asynchronous function returns
  the operations it performed and its outcome.\<close>

datatype io_event = Stat string | ReadFile string | HttpGet string

type_synonym 'a io = "io_event list \<times> (error + 'a)"

definition io_return :: "'a \<Rightarrow> 'a io" where
  "io_return x = ([], Inr x)"

definition io_throw :: "error \<Rightarrow> 'a io" where
  "io_throw e = ([], Inl e)"

definition io_bind :: "'a io \<Rightarrow> ('a \<Rightarrow> 'b io) \<Rightarrow> 'b io" where
  "io_bind m f =
     (case m of
        (t, Inl e) \<Rightarrow> (t, Inl e)
      | (t, Inr x) \<Rightarrow> (case f x of (t', r) \<Rightarrow> (t @ t', r)))"

datatype file_kind = RegularFile | Directory | OtherKind

text \<open>launchPath.ts throws at module load unless \<open>process.platform\<close> is one of these.\<close>

datatype os = Win32 | Darwin | Linux

text \<open>What the network gives a request: no response at all, or a response with its
  \<open>ok\<close> flag (a status from 200 to 299) and its body text.\<close>

datatype answer = NoResponse | Answer bool string

text \<open>What \<open>await customKy.get(service)\<close> gives: the promise rejects, or it resolves to
  a response with its \<open>ok\<close> flag and its body text.\<close>

datatype response = Rejected | Response bool string

datatype client = Direct | HttpProxy string | Socks5Proxy string

record URL =
  protocol :: string
  port :: string
  href :: string

record CountryRecord =
  iso_code :: string

record CityResponse =
  location :: "jsobject option"

record CountryResponse =
  country :: "CountryRecord option"

text \<open>
  The collaborators the program imports and the state of the machine it runs on. None of
  this is code of the repository, so each is a parameter: the file system
  (\<open>fs.stat\<close> and \<open>fs.readFile\<close>, \<open>None\<close> where the promise rejects), the functions
  of \<open>node:path\<close>, the database reader of \<open>maxmind\<close>, the table of
  \<open>country-locale-map\<close>, the string formats of \<open>zod\<close>, the \<open>URL\<close> constructor
  (\<open>None\<close> where it throws) and the network behind the HTTP client. \<open>path.dirname\<close>
  is not called by the program; it is here for what is said of \<open>launchPath\<close> in its
  terms.
\<close>

record world =
  process_platform :: os
  os_homedir :: string
  process_env :: "(string \<times> string) list"
  path_join :: "string list \<Rightarrow> string"
  path_resolve :: "string list \<Rightarrow> string"
  path_parse_dir :: "string \<Rightarrow> string"
  path_dirname :: "string \<Rightarrow> string"
  fs_stat :: "string \<Rightarrow> file_kind option"
  fs_readFile :: "string \<Rightarrow> string option"
  Reader_ok :: "string \<Rightarrow> bool"
  Reader_get_city :: "string \<Rightarrow> string \<Rightarrow> CityResponse option"
  Reader_get_country :: "string \<Rightarrow> string \<Rightarrow> CountryResponse option"
  clm_getCountryByAlpha2 :: "string \<Rightarrow> string list option"
  zod_ipv4 :: "string \<Rightarrow> bool"
  zod_ipv6 :: "string \<Rightarrow> bool"
  zod_domain :: "string \<Rightarrow> bool"
  new_URL :: "string \<Rightarrow> URL option"
  http_get :: "client \<Rightarrow> string \<Rightarrow> answer"

text \<open>
  \<open>customKy.get(service)\<close>. The instances \<open>getKyInstance\<close> returns are \<open>ky\<close> itself
  and \<open>ky.extend({dispatcher, retry: 0})\<close>: none of them sets \<open>throwHttpErrors\<close>, and
  by its default the call rejects (with an \<open>HTTPError\<close>) on a response that is not OK,
  as it rejects on a network error. A response it resolves to is therefore OK.
\<close>

definition ky_get :: "world \<Rightarrow> client \<Rightarrow> string \<Rightarrow> response" where
  "ky_get w customKy service =
     (case http_get w customKy service of
        NoResponse \<Rightarrow> Rejected
      | Answer ok body \<Rightarrow> if ok then Response ok body else Rejected)"

definition stat :: "world \<Rightarrow> string \<Rightarrow> file_kind io" where
  "stat w p =
     (case fs_stat w p of
        None \<Rightarrow> ([Stat p], Inl (StatRejected p))
      | Some kind \<Rightarrow> ([Stat p], Inr kind))"

definition readFile :: "world \<Rightarrow> string \<Rightarrow> string io" where
  "readFile w p =
     (case fs_readFile w p of
        None \<Rightarrow> ([ReadFile p], Inl (ReadRejected p))
      | Some buffer \<Rightarrow> ([ReadFile p], Inr buffer))"

section \<open>String operations of JavaScript\<close>

text \<open>\<open>s.split(sep)\<close> for a separator of one character: never empty, \<open>"".split(",")\<close>
  is \<open>[""]\<close>.\<close>

fun js_split :: "char \<Rightarrow> string \<Rightarrow> string list" where
  "js_split sep [] = [[]]"
| "js_split sep (c # cs) =
     (if c = sep then [] # js_split sep cs
      else (case js_split sep cs of
              [] \<Rightarrow> [[c]]
            | seg # segs \<Rightarrow> (c # seg) # segs))"

text \<open>\<open>xs.join(sep)\<close> on an array of strings.\<close>

fun js_join :: "string \<Rightarrow> string list \<Rightarrow> string" where
  "js_join sep [] = []"
| "js_join sep [x] = x"
| "js_join sep (x # y # ys) = x @ sep @ js_join sep (y # ys)"

text \<open>\<open>s.trim()\<close>, on the white space and line terminators of ASCII.\<close>

definition js_whitespace :: "char \<Rightarrow> bool" where
  "js_whitespace c =
     (c = CHR '' '' \<or> c = CHR 0x09 \<or> c = CHR 0x0A \<or> c = CHR 0x0B \<or> c = CHR 0x0C
      \<or> c = CHR 0x0D)"

definition trim :: "string \<Rightarrow> string" where
  "trim s = rev (dropWhile js_whitespace (rev (dropWhile js_whitespace s)))"

text \<open>An object spread \<open>{...a, ...b}\<close>: the properties of \<open>a\<close>, each property of
  \<open>b\<close> then written over a property of the same key or added last.\<close>

definition spread :: "jsobject \<Rightarrow> jsobject \<Rightarrow> jsobject" where
  "spread a b = fold (\<lambda>(k, v). AList.update k v) b a"

text \<open>A \<open>Set\<close> of strings in insertion order: \<open>add\<close>, and the first value of
  \<open>values()\<close> (\<open>undefined\<close> on the empty set).\<close>

definition Set_add :: "string list \<Rightarrow> string \<Rightarrow> string list" where
  "Set_add xs x = (if x \<in> set xs then xs else xs @ [x])"

definition Set_first :: "string list \<Rightarrow> string option" where
  "Set_first xs = (case xs of [] \<Rightarrow> None | x # _ \<Rightarrow> Some x)"

section \<open>main.ts: the input schema\<close>

text \<open>
  A schema that cannot throw is a function from the value it parses to the typed value it
  yields, \<open>None\<close> where \<open>safeParse\<close> reports an error. A schema that holds a
  discriminated union has a third outcome, the parse itself throwing.
\<close>

datatype 'a parsed = Threw | Invalid | Valid 'a

definition parsed_of :: "'a option \<Rightarrow> 'a parsed" where
  "parsed_of x = (case x of None \<Rightarrow> Invalid | Some a \<Rightarrow> Valid a)"

text \<open>The values a successful parse yields:\<close>

datatype geoip = GeoBool bool | GeoIP "string option" "string option"

datatype humanize = HumBool bool | HumNum rat

record proxy =
  server :: string
  username :: "string option"
  password :: "string option"
  bypass :: "string option"

text \<open>The validated user input (\<open>zvui\<close> in main.ts); an absent field is \<open>None\<close>.\<close>

record zvui =
  headless_in :: "bool option"
  proxy_in :: "proxy option"
  geoip_in :: "geoip option"
  humanize_in :: "humanize option"
  enableCache_in :: "bool option"
  executablePath_in :: "string option"

definition z_boolean :: "jsval \<Rightarrow> bool option" where
  "z_boolean v = (case v of JBool b \<Rightarrow> Some b | _ \<Rightarrow> None)"

definition z_string :: "jsval \<Rightarrow> string option" where
  "z_string v = (case v of JStr s \<Rightarrow> Some s | _ \<Rightarrow> None)"

definition z_ipv4 :: "world \<Rightarrow> jsval \<Rightarrow> string option" where
  "z_ipv4 w v = (case v of JStr s \<Rightarrow> if zod_ipv4 w s then Some s else None | _ \<Rightarrow> None)"

definition z_ipv6 :: "world \<Rightarrow> jsval \<Rightarrow> string option" where
  "z_ipv6 w v = (case v of JStr s \<Rightarrow> if zod_ipv6 w s then Some s else None | _ \<Rightarrow> None)"

text \<open>\<open>z.optional(schema)\<close>: \<open>undefined\<close> (or a missing key) is accepted as absent.\<close>

definition z_optional :: "(jsval \<Rightarrow> 'a option) \<Rightarrow> jsval \<Rightarrow> 'a option option" where
  "z_optional schema v = (if v = JUndefined then Some None else map_option Some (schema v))"

definition z_optional_parsed :: "(jsval \<Rightarrow> 'a parsed) \<Rightarrow> jsval \<Rightarrow> 'a option parsed" where
  "z_optional_parsed schema v =
     (if v = JUndefined then Valid None
      else (case schema v of
              Threw \<Rightarrow> Threw
            | Invalid \<Rightarrow> Invalid
            | Valid a \<Rightarrow> Valid (Some a)))"

text \<open>\<open>z.strictObject\<close>: a plain object none of whose keys is outside the shape.\<close>

definition z_strictObject :: "string list \<Rightarrow> jsval \<Rightarrow> jsobject option" where
  "z_strictObject shape v =
     (case v of
        JObj obj \<Rightarrow> if list_all (\<lambda>k. k \<in> set shape) (map fst obj) then Some obj else None
      | _ \<Rightarrow> None)"

text \<open>
  \<open>z.discriminatedUnion(discriminator, options)\<close> of zod 4. Each option is given with
  the literal values its schema of the discriminator property can take, which zod reads
  from the option: \<open>z.undefined()\<close> has the value \<open>undefined\<close>, \<open>z.optional\<close> adds
  \<open>undefined\<close> to the values of its inner schema when that has some, and a string
  format (\<open>z.ipv4()\<close>) or an object schema has none. A value that is not an object
  fails to parse. On an object the union builds, at its first parse, the table from
  discriminator values to options, and building it throws
  \<open>Error('Invalid discriminated union option at index "i"')\<close> for an option without
  values and \<open>Error('Duplicate discriminator value')\<close> for a value of two options;
  with a table, the option of the object's discriminator value parses the object, and an
  object whose value is in no option fails to parse.
\<close>

definition z_discriminatedUnion ::
    "string \<Rightarrow> (jsval list \<times> (jsval \<Rightarrow> 'a parsed)) list \<Rightarrow> jsval \<Rightarrow> 'a parsed" where
  "z_discriminatedUnion discriminator options v =
     (case v of
        JObj obj \<Rightarrow>
          if list_ex (\<lambda>option. fst option = []) options
             \<or> \<not> distinct (concat (map fst options))
          then Threw
          else (case find (\<lambda>option. obj_get obj discriminator \<in> set (fst option)) options of
                  Some option \<Rightarrow> snd option v
                | None \<Rightarrow> Invalid)
      | _ \<Rightarrow> Invalid)"

text \<open>The two shapes of an explicit IP object (main.ts lines 28-53 and 132-157): the
  first requires \<open>ipv4\<close>, the second requires \<open>ipv6\<close>.\<close>

definition ipv4_required :: "world \<Rightarrow> jsval \<Rightarrow> geoip option" where
  "ipv4_required w v =
     (case z_strictObject [''ipv4'', ''ipv6''] v of
        None \<Rightarrow> None
      | Some obj \<Rightarrow>
          (case (z_ipv4 w (obj_get obj ''ipv4''), z_optional (z_ipv6 w) (obj_get obj ''ipv6'')) of
             (Some a, Some b) \<Rightarrow> Some (GeoIP (Some a) b)
           | _ \<Rightarrow> None))"

definition ipv6_required :: "world \<Rightarrow> jsval \<Rightarrow> geoip option" where
  "ipv6_required w v =
     (case z_strictObject [''ipv4'', ''ipv6''] v of
        None \<Rightarrow> None
      | Some obj \<Rightarrow>
          (case (z_optional (z_ipv4 w) (obj_get obj ''ipv4''), z_ipv6 w (obj_get obj ''ipv6'')) of
             (Some a, Some b) \<Rightarrow> Some (GeoIP a (Some b))
           | _ \<Rightarrow> None))"

text \<open>\<open>z.discriminatedUnion("ipv4", [...])\<close> of the two shapes (main.ts lines 28 and
  132). The discriminator property \<open>ipv4\<close> is \<open>z.ipv4()\<close> in the first shape and
  \<open>z.optional(z.ipv4())\<close> in the second: neither has a literal value.\<close>

definition ip_union :: "world \<Rightarrow> jsval \<Rightarrow> geoip parsed" where
  "ip_union w =
     z_discriminatedUnion ''ipv4''
       [([], \<lambda>v. parsed_of (ipv4_required w v)), ([], \<lambda>v. parsed_of (ipv6_required w v))]"

text \<open>\<open>geoip\<close>: \<open>z.union([z.boolean(), z.discriminatedUnion("ipv4", [...])])\<close>; the
  union returns the result of the first option that accepts the value.\<close>

definition geoip_schema :: "world \<Rightarrow> jsval \<Rightarrow> geoip parsed" where
  "geoip_schema w v =
     (case z_boolean v of
        Some b \<Rightarrow> Valid (GeoBool b)
      | None \<Rightarrow> ip_union w v)"

text \<open>\<open>humanize\<close>: \<open>z.union([z.boolean(), z.number().check(z.positive())])\<close>.\<close>

definition humanize_schema :: "jsval \<Rightarrow> humanize option" where
  "humanize_schema v =
     (case v of
        JBool b \<Rightarrow> Some (HumBool b)
      | JNum n \<Rightarrow> if 0 < n then Some (HumNum n) else None
      | _ \<Rightarrow> None)"

text \<open>\<open>server\<close>: \<open>z.url\<close> with the protocol pattern \<open>/(^https?$|^socks5$)/\<close>, tested on
  the protocol without its final colon, and \<open>normalize: true\<close> (the value becomes
  \<open>url.href\<close>).\<close>

definition strip_colon :: "string \<Rightarrow> string" where
  "strip_colon s = (if s \<noteq> [] \<and> last s = CHR '':'' then butlast s else s)"

definition server_schema :: "world \<Rightarrow> jsval \<Rightarrow> string option" where
  "server_schema w v =
     (case v of
        JStr s \<Rightarrow>
          (case new_URL w s of
             None \<Rightarrow> None
           | Some url \<Rightarrow>
               if strip_colon (protocol url) \<in> {''http'', ''https'', ''socks5''}
               then Some (href url) else None)
      | _ \<Rightarrow> None)"

text \<open>The refinement of \<open>bypass\<close> (main.ts lines 108-120): the loop over the segments
  returns false at the first segment the domain pattern rejects.\<close>

fun bypass_loop :: "world \<Rightarrow> string list \<Rightarrow> bool" where
  "bypass_loop w [] = True"
| "bypass_loop w (domain # splitted) =
     (if \<not> zod_domain w domain then False else bypass_loop w splitted)"

definition bypass_refine :: "world \<Rightarrow> string \<Rightarrow> bool" where
  "bypass_refine w bypassList = bypass_loop w (js_split CHR '','' bypassList)"

definition bypass_schema :: "world \<Rightarrow> jsval \<Rightarrow> string option" where
  "bypass_schema w v =
     (case v of JStr s \<Rightarrow> if bypass_refine w s then Some s else None | _ \<Rightarrow> None)"

definition proxy_schema :: "world \<Rightarrow> jsval \<Rightarrow> proxy option" where
  "proxy_schema w v =
     (case z_strictObject [''server'', ''username'', ''password'', ''bypass''] v of
        None \<Rightarrow> None
      | Some obj \<Rightarrow>
          (case (server_schema w (obj_get obj ''server''),
                 z_optional z_string (obj_get obj ''username''),
                 z_optional z_string (obj_get obj ''password''),
                 z_optional (bypass_schema w) (obj_get obj ''bypass'')) of
             (Some s, Some u, Some p, Some b) \<Rightarrow>
               Some \<lparr>server = s, username = u, password = p, bypass = b\<rparr>
           | _ \<Rightarrow> None))"

definition option_keys :: "string list" where
  "option_keys =
     [''headless'', ''proxy'', ''geoip'', ''humanize'', ''enableCache'', ''executablePath'']"

text \<open>The first option of the union (main.ts lines 10-72): \<open>proxy\<close> must be
  \<open>undefined\<close>, \<open>geoip\<close> is optional. An object schema parses every property of its
  shape, so a property whose parse throws makes the whole parse throw.\<close>

definition no_proxy_variant :: "world \<Rightarrow> jsval \<Rightarrow> zvui parsed" where
  "no_proxy_variant w v =
     (case v of
        JObj obj \<Rightarrow>
          (case z_optional_parsed (geoip_schema w) (obj_get obj ''geoip'') of
             Threw \<Rightarrow> Threw
           | Invalid \<Rightarrow> Invalid
           | Valid g \<Rightarrow>
               (case (z_strictObject option_keys v,
                      z_optional z_boolean (obj_get obj ''headless''),
                      obj_get obj ''proxy'' = JUndefined,
                      z_optional humanize_schema (obj_get obj ''humanize''),
                      z_optional z_boolean (obj_get obj ''enableCache''),
                      z_optional z_string (obj_get obj ''executablePath'')) of
                  (Some _, Some h, True, Some hu, Some c, Some e) \<Rightarrow>
                    Valid \<lparr>headless_in = h, proxy_in = None, geoip_in = g, humanize_in = hu,
                           enableCache_in = c, executablePath_in = e\<rparr>
                | _ \<Rightarrow> Invalid))
      | _ \<Rightarrow> Invalid)"

text \<open>The second option (main.ts lines 73-175): \<open>proxy\<close> is a proxy object and
  \<open>geoip\<close> is not wrapped in \<open>z.optional\<close>.\<close>

definition has_proxy_variant :: "world \<Rightarrow> jsval \<Rightarrow> zvui parsed" where
  "has_proxy_variant w v =
     (case v of
        JObj obj \<Rightarrow>
          (case geoip_schema w (obj_get obj ''geoip'') of
             Threw \<Rightarrow> Threw
           | Invalid \<Rightarrow> Invalid
           | Valid g \<Rightarrow>
               (case (z_strictObject option_keys v,
                      z_optional z_boolean (obj_get obj ''headless''),
                      proxy_schema w (obj_get obj ''proxy''),
                      z_optional humanize_schema (obj_get obj ''humanize''),
                      z_optional z_boolean (obj_get obj ''enableCache''),
                      z_optional z_string (obj_get obj ''executablePath'')) of
                  (Some _, Some h, Some p, Some hu, Some c, Some e) \<Rightarrow>
                    Valid \<lparr>headless_in = h, proxy_in = Some p, geoip_in = Some g,
                           humanize_in = hu, enableCache_in = c, executablePath_in = e\<rparr>
                | _ \<Rightarrow> Invalid))
      | _ \<Rightarrow> Invalid)"

text \<open>\<open>z.discriminatedUnion("proxy", [...])\<close> (main.ts line 9). The discriminator
  property \<open>proxy\<close> is \<open>z.optional(z.undefined())\<close> in the first option, with the one
  value \<open>undefined\<close>, and \<open>z.strictObject({...})\<close> in the second (main.ts line 83),
  an object schema, with no literal value.\<close>

definition zodCamoufoxLaunchOptions :: "world \<Rightarrow> jsval \<Rightarrow> zvui parsed" where
  "zodCamoufoxLaunchOptions w =
     z_discriminatedUnion ''proxy''
       [([JUndefined], no_proxy_variant w), ([], has_proxy_variant w)]"

section \<open>proxy.ts: the public IP resolver\<close>

text \<open>The resolved addresses (\<open>ipOutputObject\<close>); \<open>None\<close> is the literal \<open>false\<close>.\<close>

record ipOutputObjectType =
  ipv4 :: "string option"
  ipv6 :: "string option"

text \<open>\<open>getKyInstance\<close>: the client the detection requests go through. The port of a
  parsed URL is empty or decimal, so its coercion to a number does not throw and is left
  out.\<close>

definition getKyInstance :: "world \<Rightarrow> proxy option \<Rightarrow> error + client" where
  "getKyInstance w proxy =
     (case proxy of
        None \<Rightarrow> Inr Direct
      | Some p \<Rightarrow>
          (case new_URL w (server p) of
             None \<Rightarrow> Inl InvalidURL
           | Some proxyUrl \<Rightarrow>
               if protocol proxyUrl = ''http:'' \<or> protocol proxyUrl = ''https:''
               then Inr (HttpProxy (server p))
               else if protocol proxyUrl = ''socks5:''
               then Inr (Socks5Proxy (server p))
               else Inl UnsupportedProxyProtocol))"

text \<open>\<open>ipInputObject.safeParse(input)\<close>: \<open>true\<close> is no object; an object must hold a
  valid literal in each family it has.\<close>

definition ipInputObject :: "world \<Rightarrow> geoip \<Rightarrow> (string option \<times> string option) option" where
  "ipInputObject w input =
     (case input of
        GeoBool _ \<Rightarrow> None
      | GeoIP a b \<Rightarrow>
          if (case a of None \<Rightarrow> True | Some s \<Rightarrow> zod_ipv4 w s)
             \<and> (case b of None \<Rightarrow> True | Some s \<Rightarrow> zod_ipv6 w s)
          then Some (a, b) else None)"

text \<open>\<open>ipOutputObject.parse({ipv4: ..., ipv6: ...})\<close>, which throws on an invalid
  literal.\<close>

definition ipOutputObject :: "world \<Rightarrow> string option \<Rightarrow> string option \<Rightarrow> ipOutputObjectType io"
  where
  "ipOutputObject w a b =
     (if (case a of None \<Rightarrow> True | Some s \<Rightarrow> zod_ipv4 w s)
         \<and> (case b of None \<Rightarrow> True | Some s \<Rightarrow> zod_ipv6 w s)
      then io_return \<lparr>ipv4 = a, ipv6 = b\<rparr> else io_throw ParseRejected)"

text \<open>\<open>x ? x : false\<close> on a string that may be absent: the empty string is falsy.\<close>

definition or_false :: "string option \<Rightarrow> string option" where
  "or_false x = (case x of None \<Rightarrow> None | Some s \<Rightarrow> if s = [] then None else Some s)"

definition whatsMyIPList :: "string list" where
  "whatsMyIPList =
     [''https://api.ipify.org'', ''https://checkip.amazonaws.com'', ''https://icanhazip.com'',
      ''https://ifconfig.co/ip'', ''https://ipecho.net/plain'', ''https://ipinfo.io/ip'']"

text \<open>The loop of proxy.ts lines 73-89 over the services left, on the two sets. The
  request is awaited with no handler around it: a rejection leaves the loop and the
  function. Reading the body of a response that arrived is taken to succeed.\<close>

fun detect :: "world \<Rightarrow> client \<Rightarrow> string list \<Rightarrow> string list \<times> string list
    \<Rightarrow> (string list \<times> string list) io" where
  "detect w customKy [] sets = io_return sets"
| "detect w customKy (service # services) (ipv4Set, ipv6Set) =
     (case ky_get w customKy service of
        Rejected \<Rightarrow> ([HttpGet service], Inl (RequestRejected service))
      | Response ok body \<Rightarrow>
          io_bind ([HttpGet service], Inr ())
            (\<lambda>_. detect w customKy services
               (if ok then
                  (let pubIP = trim body in
                   (if zod_ipv4 w pubIP then Set_add ipv4Set pubIP else ipv4Set,
                    if zod_ipv6 w pubIP then Set_add ipv6Set pubIP else ipv6Set))
                else (ipv4Set, ipv6Set))))"

definition getPublicIP :: "world \<Rightarrow> geoip \<Rightarrow> proxy option \<Rightarrow> ipOutputObjectType io" where
  "getPublicIP w input proxy =
     (case ipInputObject w input of
        Some (a, b) \<Rightarrow> ipOutputObject w (or_false a) (or_false b)
      | None \<Rightarrow>
          (case getKyInstance w proxy of
             Inl e \<Rightarrow> io_throw e
           | Inr customKy \<Rightarrow>
               io_bind (detect w customKy whatsMyIPList ([], []))
                 (\<lambda>(ipv4Set, ipv6Set).
                    if ipv4Set = [] \<and> ipv6Set = [] then io_throw DetectionFailed
                    else
                      ipOutputObject w
                        (case Set_first ipv4Set of
                           None \<Rightarrow> None
                         | Some s \<Rightarrow> if zod_ipv4 w s then Some s else None)
                        (case Set_first ipv6Set of
                           None \<Rightarrow> None
                         | Some s \<Rightarrow> if zod_ipv6 w s then Some s else None))))"

section \<open>geoData.ts: the geo-locale resolver\<close>

definition pickPubIP :: "ipOutputObjectType \<Rightarrow> error + string" where
  "pickPubIP ipObject =
     (case (ipv4 ipObject, ipv6 ipObject) of
        (Some a, None) \<Rightarrow> Inr a
      | (None, Some b) \<Rightarrow> Inr b
      | (Some a, Some b) \<Rightarrow> Inr a
      | (None, None) \<Rightarrow> Inl NoValidIP)"

record GeoLocale =
  longitude :: rat
  latitude :: rat
  accuracy :: rat
  timezone :: "string option"
  locales :: string

text \<open>\<open>geolocationAndLocaleObject.parse\<close> on the object built from the location record
  and the joined locales; it throws unless the three coordinates are numbers and the time
  zone is a string or absent.\<close>

definition geolocationAndLocaleObject :: "jsobject \<Rightarrow> string \<Rightarrow> GeoLocale io" where
  "geolocationAndLocaleObject loc joined =
     (case (obj_get loc ''longitude'', obj_get loc ''latitude'',
            obj_get loc ''accuracy_radius'', z_optional z_string (obj_get loc ''time_zone'')) of
        (JNum lon, JNum lat, JNum acc, Some tz) \<Rightarrow>
          io_return \<lparr>longitude = lon, latitude = lat, accuracy = acc, timezone = tz,
                     locales = joined\<rparr>
      | _ \<Rightarrow> io_throw ParseRejected)"

definition mmdbFile :: "world \<Rightarrow> string \<Rightarrow> string" where
  "mmdbFile w directory = path_resolve w [path_parse_dir w directory, ''GeoLite2-City.mmdb'']"

definition getGeolocationAndLocale :: "world \<Rightarrow> ipOutputObjectType \<Rightarrow> string \<Rightarrow> GeoLocale io"
  where
  "getGeolocationAndLocale w ipObject directory =
     (case pickPubIP ipObject of
        Inl e \<Rightarrow> io_throw e
      | Inr pubIP \<Rightarrow>
          io_bind (stat w (mmdbFile w directory)) (\<lambda>fileStats.
            if fileStats = RegularFile then
              io_bind (readFile w (mmdbFile w directory)) (\<lambda>buffer.
                if \<not> Reader_ok w buffer then io_throw ReaderRejected
                else
                  (case (Reader_get_city w buffer pubIP, Reader_get_country w buffer pubIP) of
                     (Some maxmindCity, Some maxmindCountry) \<Rightarrow>
                       (case (location maxmindCity, country maxmindCountry) of
                          (Some loc, Some cntry) \<Rightarrow>
                            (case clm_getCountryByAlpha2 w (iso_code cntry) of
                               Some clmLocales \<Rightarrow>
                                 geolocationAndLocaleObject loc (js_join '', '' clmLocales)
                             | None \<Rightarrow> io_throw UnknownCountryCode)
                        | _ \<Rightarrow> io_throw (NoGeoData pubIP))
                   | _ \<Rightarrow> io_throw (NoGeoData pubIP)))
            else io_throw DatabaseNotFound))"

section \<open>launchPath.ts: the executable\<close>

definition getDefaultInstallDirectory :: "world \<Rightarrow> string" where
  "getDefaultInstallDirectory w =
     (case process_platform w of
        Win32 \<Rightarrow>
          path_join w [os_homedir w, ''AppData'', ''Local'', ''camoufox'', ''camoufox'', ''Cache'']
      | Darwin \<Rightarrow>
          path_resolve w
            [path_join w [os_homedir w, ''Library'', ''Caches'', ''camoufox''],
             ''Camoufox.app'', ''Contents'', ''Resources'', ''../MacOS'']
      | Linux \<Rightarrow> path_join w [os_homedir w, ''.cache'', ''camoufox''])"

definition camoufoxExecutable :: "os \<Rightarrow> string" where
  "camoufoxExecutable osName =
     (case osName of
        Win32 \<Rightarrow> ''camoufox.exe''
      | Darwin \<Rightarrow> ''camoufox''
      | Linux \<Rightarrow> ''camoufox-bin'')"

text \<open>The two checks return the path or \<open>false\<close> (\<open>None\<close>). \<open>directory\<close> of
  \<open>validatedExecutablePath\<close> is the \<open>dir\<close> part of the parsed path.\<close>

definition validatedExecutablePath :: "world \<Rightarrow> string \<Rightarrow> string \<Rightarrow> string option io" where
  "validatedExecutablePath w dir executable =
     io_bind (stat w (path_resolve w [dir, executable])) (\<lambda>fileStats.
       if fileStats = RegularFile then io_return (Some (path_resolve w [dir, executable]))
       else io_return None)"

definition checkIfCamoufoxIsInstalled :: "world \<Rightarrow> string \<Rightarrow> string option io" where
  "checkIfCamoufoxIsInstalled w directory =
     io_bind (stat w (path_parse_dir w directory)) (\<lambda>directoryStats.
       if directoryStats = Directory then
         io_bind
           (validatedExecutablePath w (path_parse_dir w directory)
              (camoufoxExecutable (process_platform w)))
           (\<lambda>executableValid. io_return (or_false executableValid))
       else io_return None)"

definition launchPath :: "world \<Rightarrow> string option \<Rightarrow> string io" where
  "launchPath w customInstall =
     io_bind
       (case or_false customInstall of
          Some dir \<Rightarrow> checkIfCamoufoxIsInstalled w dir
        | None \<Rightarrow> checkIfCamoufoxIsInstalled w (getDefaultInstallDirectory w))
       (\<lambda>camoufoxInstalled.
          case or_false camoufoxInstalled of
            Some path \<Rightarrow> io_return path
          | None \<Rightarrow> io_throw NotInstalled)"

section \<open>main.ts: the orchestrator\<close>

record configs =
  mainConfig :: jsobject
  firefoxPrefs :: jsobject

record LaunchDescriptor =
  executablePath :: string
  env :: jsobject
  proxy :: "proxy option"
  firefoxUserPrefs :: jsobject
  headless :: bool

text \<open>main.ts lines 222-242: the geolocation settings, when \<open>zvui.geoip\<close> is truthy
  (\<open>true\<close> or an object): the addresses (lines 226-231), then the geo data (lines
  235-241), each written with \<open>addToConfig\<close>.\<close>

definition webrtc_settings :: "ipOutputObjectType \<Rightarrow> configs \<Rightarrow> configs" where
  "webrtc_settings publicIP c =
     (let c1 = (case or_false (ipv4 publicIP) of
                  Some a \<Rightarrow> c\<lparr>mainConfig := addToConfig (mainConfig c) ''webrtc:ipv4'' (JStr a)\<rparr>
                | None \<Rightarrow> c)
      in (case or_false (ipv6 publicIP) of
            Some b \<Rightarrow> c1\<lparr>mainConfig := addToConfig (mainConfig c1) ''webrtc:ipv6'' (JStr b)\<rparr>
          | None \<Rightarrow> c1))"

definition geolocation_settings :: "GeoLocale \<Rightarrow> configs \<Rightarrow> configs" where
  "geolocation_settings geoData c =
     (let m1 = addToConfig (mainConfig c) ''geolocation:longitude'' (JNum (longitude geoData));
          m2 = addToConfig m1 ''geolocation:latitude'' (JNum (latitude geoData));
          m3 = addToConfig m2 ''geolocation:accuracy'' (JNum (accuracy geoData));
          m4 = addToConfig m3 ''locale:all'' (JStr (locales geoData))
      in c\<lparr>mainConfig := (case or_false (timezone geoData) of
                              Some tz \<Rightarrow> addToConfig m4 ''timezone'' (JStr tz)
                            | None \<Rightarrow> m4)\<rparr>)"

definition geoip_settings :: "world \<Rightarrow> zvui \<Rightarrow> string \<Rightarrow> configs \<Rightarrow> geoip \<Rightarrow> configs io"
  where
  "geoip_settings w z vaildatedExecutablePath c g =
     io_bind (getPublicIP w g (proxy_in z)) (\<lambda>publicIP.
       io_bind (getGeolocationAndLocale w publicIP vaildatedExecutablePath) (\<lambda>geoData.
         io_return (geolocation_settings geoData (webrtc_settings publicIP c))))"

definition geoip_step :: "world \<Rightarrow> zvui \<Rightarrow> string \<Rightarrow> configs \<Rightarrow> configs io" where
  "geoip_step w z vaildatedExecutablePath c =
     (case geoip_in z of
        None \<Rightarrow> io_return c
      | Some (GeoBool False) \<Rightarrow> io_return c
      | Some g \<Rightarrow> geoip_settings w z vaildatedExecutablePath c g)"

text \<open>main.ts lines 244-250: a number is truthy unless it is zero.\<close>

definition humanize_step :: "zvui \<Rightarrow> configs \<Rightarrow> configs" where
  "humanize_step z c =
     (case humanize_in z of
        Some (HumBool True) \<Rightarrow> c\<lparr>mainConfig := addToConfig (mainConfig c) ''humanize'' (JBool True)\<rparr>
      | Some (HumNum n) \<Rightarrow>
          if n = 0 then c
          else c\<lparr>mainConfig :=
                   addToConfig (addToConfig (mainConfig c) ''humanize'' (JBool True))
                     ''humanize:maxTime'' (JNum n)\<rparr>
      | _ \<Rightarrow> c)"

text \<open>main.ts lines 252-259.\<close>

definition enableCache_step :: "zvui \<Rightarrow> configs \<Rightarrow> configs" where
  "enableCache_step z c =
     (if enableCache_in z = Some True then
        c\<lparr>firefoxPrefs :=
            addToConfig
              (addToConfig
                 (addToConfig
                    (addToConfig
                       (addToConfig (firefoxPrefs c)
                          ''browser.sessionhistory.max_entries'' (JNum 10))
                       ''browser.sessionhistory.max_total_viewers'' (JNum (- 1)))
                    ''browser.cache.memory.enable'' (JBool True))
                 ''browser.cache.disk_cache_ssl'' (JBool True))
              ''browser.cache.disk.smart_size.enabled'' (JBool True)\<rparr>
      else c)"

text \<open>\<open>configCheck.safeParse\<close>: a record whose values are strings, numbers or
  booleans.\<close>

definition configCheck :: "jsobject \<Rightarrow> jsobject option" where
  "configCheck obj =
     (if list_all (\<lambda>(k, v). case v of JStr _ \<Rightarrow> True | JNum _ \<Rightarrow> True | JBool _ \<Rightarrow> True
                                   | _ \<Rightarrow> False) obj
      then Some obj else None)"

text \<open>main.ts lines 204-259, on the validated input: the executable and the two
  maps.\<close>

definition camoufoxLaunchOptions_configs :: "world \<Rightarrow> zvui \<Rightarrow> (string \<times> configs) io" where
  "camoufoxLaunchOptions_configs w z =
     io_bind (launchPath w (executablePath_in z)) (\<lambda>vaildatedExecutablePath.
       io_bind
         (geoip_step w z vaildatedExecutablePath \<lparr>mainConfig = [], firefoxPrefs = []\<rparr>)
         (\<lambda>c. io_return (vaildatedExecutablePath, enableCache_step z (humanize_step z c))))"

text \<open>main.ts lines 261-291: the three checks, the merge and the returned object.\<close>

definition camoufoxLaunchOptions_finish ::
    "world \<Rightarrow> zvui \<Rightarrow> string \<Rightarrow> configs \<Rightarrow> LaunchDescriptor io" where
  "camoufoxLaunchOptions_finish w z vaildatedExecutablePath c =
     (case (configCheck (mainConfig c), configCheck (firefoxPrefs c),
            configCheck (map (\<lambda>(k, s). (k, JStr s)) (process_env w))) of
        (Some finalMainConfig, Some finalFirefoxPrefs, Some finalNodeEnv) \<Rightarrow>
          io_return
            \<lparr>executablePath = vaildatedExecutablePath,
             env = spread finalMainConfig finalNodeEnv,
             proxy = proxy_in z,
             firefoxUserPrefs = finalFirefoxPrefs,
             headless = (case headless_in z of Some h \<Rightarrow> h | None \<Rightarrow> True)\<rparr>
      | _ \<Rightarrow> io_throw ConfigCheckError)"

text \<open>main.ts lines 200-291: the body of the function after validation, on the
  validated input \<open>zvui\<close>.\<close>

definition camoufoxLaunchOptions_body :: "world \<Rightarrow> zvui \<Rightarrow> LaunchDescriptor io" where
  "camoufoxLaunchOptions_body w z =
     io_bind (camoufoxLaunchOptions_configs w z)
       (\<lambda>(vaildatedExecutablePath, c).
          camoufoxLaunchOptions_finish w z vaildatedExecutablePath c)"

text \<open>The function: the argument is destructured and parsed (main.ts lines 179-198); a
  throw of \<open>safeParse\<close> leaves the function as it is, an invalid input is thrown as the
  prettified validation error, a valid one goes to the body.\<close>

definition camoufoxLaunchOptions :: "world \<Rightarrow> jsobject \<Rightarrow> LaunchDescriptor io" where
  "camoufoxLaunchOptions w arg =
     (case zodCamoufoxLaunchOptions w (JObj (map (\<lambda>k. (k, obj_get arg k)) option_keys)) of
        Threw \<Rightarrow> io_throw DiscriminatedUnionThrew
      | Invalid \<Rightarrow> io_throw ValidationError
      | Valid z \<Rightarrow> camoufoxLaunchOptions_body w z)"

section \<open>A concrete world\<close>

text \<open>
  Stand-ins for the collaborators, on which the model runs on concrete inputs: a Linux
  machine with an installation under \<open>/opt/camoufox\<close> and a copy of the executable in
  the working directory \<open>/work\<close>, POSIX paths, an IPv4 pattern of four dotted groups of
  digits, a domain pattern of dotted labels of letters, digits and hyphens, a database
  that knows the address \<open>1.2.3.4\<close>, and detection services that all answer OK, one of
  them with a page that is no address.
\<close>

definition sample_digit :: "char \<Rightarrow> bool" where
  "sample_digit c = (c \<in> set ''0123456789'')"

definition sample_label_char :: "char \<Rightarrow> bool" where
  "sample_label_char c =
     (c \<in> set ''abcdefghijklmnopqrstuvwxyzABCDEFGHIJKLMNOPQRSTUVWXYZ0123456789-'')"

definition sample_ipv4 :: "string \<Rightarrow> bool" where
  "sample_ipv4 s =
     (length (js_split CHR ''.'' s) = 4
      \<and> list_all (\<lambda>p. p \<noteq> [] \<and> length p \<le> 3 \<and> list_all sample_digit p)
           (js_split CHR ''.'' s))"

definition sample_ipv6 :: "string \<Rightarrow> bool" where
  "sample_ipv6 s =
     (CHR '':'' \<in> set s \<and> list_all (\<lambda>c. c \<in> set ''0123456789abcdefABCDEF:'') s)"

definition sample_domain :: "string \<Rightarrow> bool" where
  "sample_domain s =
     (2 \<le> length (js_split CHR ''.'' s)
      \<and> list_all (\<lambda>l. l \<noteq> [] \<and> list_all sample_label_char l) (js_split CHR ''.'' s))"

definition sample_URL :: "string \<Rightarrow> URL option" where
  "sample_URL s =
     (case js_split CHR '':'' s of
        scheme # rest # _ \<Rightarrow>
          if scheme \<noteq> [] \<and> take 2 rest = ''//''
          then Some \<lparr>protocol = scheme @ '':'', port = [], href = s\<rparr> else None
      | _ \<Rightarrow> None)"

text \<open>\<open>path.parse(p).dir\<close> and \<open>path.dirname(p)\<close> of a path with no trailing slash:
  what stands before the last slash (the root for a path under it); for a path without a
  slash the first is empty and the second is \<open>"."\<close>.\<close>

definition sample_dir :: "string \<Rightarrow> string" where
  "sample_dir p =
     (if CHR ''/'' \<notin> set p then []
      else if js_join ''/'' (butlast (js_split CHR ''/'' p)) = [] then ''/''
      else js_join ''/'' (butlast (js_split CHR ''/'' p)))"

definition sample_dirname :: "string \<Rightarrow> string" where
  "sample_dirname p = (if CHR ''/'' \<notin> set p then ''.'' else sample_dir p)"

text \<open>\<open>path.resolve(...segments)\<close> in the working directory \<open>/work\<close>: an absolute
  segment starts over, an empty one is skipped, and the result is normalised.\<close>

fun sample_normalize :: "string list \<Rightarrow> string list \<Rightarrow> string list" where
  "sample_normalize done [] = rev done"
| "sample_normalize done (c # cs) =
     (if c = [] \<or> c = ''.'' then sample_normalize done cs
      else if c = ''..'' then sample_normalize (tl done) cs
      else sample_normalize (c # done) cs)"

definition sample_resolve :: "string list \<Rightarrow> string" where
  "sample_resolve segments =
     CHR ''/'' #
     js_join ''/''
       (sample_normalize []
          (js_split CHR ''/''
             (foldl (\<lambda>path segment.
                       if segment = [] then path
                       else if hd segment = CHR ''/'' then segment
                       else path @ ''/'' @ segment)
                ''/work'' segments)))"

definition sample_stat :: "string \<Rightarrow> file_kind option" where
  "sample_stat p =
     (if p = ''/opt/camoufox'' \<or> p = ''/work'' \<or> p = ''.'' then Some Directory
      else if p = ''/opt/camoufox/camoufox-bin'' \<or> p = ''/work/camoufox-bin''
      then Some RegularFile
      else if p = ''/opt/camoufox/GeoLite2-City.mmdb'' then Some RegularFile
      else None)"

definition sample_location :: jsobject where
  "sample_location =
     [(''accuracy_radius'', JNum 1000), (''latitude'', JNum (- 34)), (''longitude'', JNum 151),
      (''time_zone'', JStr ''Australia/Sydney'')]"

definition sample_get :: "client \<Rightarrow> string \<Rightarrow> answer" where
  "sample_get customKy service =
     (if service = ''https://icanhazip.com'' then Answer True ''<html>blocked</html>''
      else Answer True (''1.2.3.4'' @ [CHR 0x0A]))"

definition sample_world :: world where
  "sample_world =
     \<lparr>process_platform = Linux,
      os_homedir = ''/home/user'',
      process_env = [(''HOME'', ''/home/user''), (''humanize'', ''0'')],
      path_join = js_join ''/'',
      path_resolve = sample_resolve,
      path_parse_dir = sample_dir,
      path_dirname = sample_dirname,
      fs_stat = sample_stat,
      fs_readFile =
        (\<lambda>p. if p = ''/opt/camoufox/GeoLite2-City.mmdb'' then Some ''mmdb'' else None),
      Reader_ok = (\<lambda>buffer. buffer = ''mmdb''),
      Reader_get_city =
        (\<lambda>buffer ip. if ip = ''1.2.3.4'' then Some \<lparr>location = Some sample_location\<rparr>
                      else None),
      Reader_get_country =
        (\<lambda>buffer ip. if ip = ''1.2.3.4'' then Some \<lparr>country = Some \<lparr>iso_code = ''AU''\<rparr>\<rparr>
                      else None),
      clm_getCountryByAlpha2 = (\<lambda>code. if code = ''AU'' then Some [''en_AU''] else None),
      zod_ipv4 = sample_ipv4,
      zod_ipv6 = sample_ipv6,
      zod_domain = sample_domain,
      new_URL = sample_URL,
      http_get = sample_get\<rparr>"

section \<open>Properties of the config accumulator\<close>

lemma key_in_addToConfig: "key_in k (addToConfig m k v)"
  by (simp add: addToConfig_def key_in_def)

lemma addToConfig_present: "key_in k m \<Longrightarrow> addToConfig m k v = m"
  by (simp add: addToConfig_def)

lemma get_prop_addToConfig_fresh:
  assumes "\<not> key_in k m"
  shows "get_prop (addToConfig m k v) k = v"
proof -
  from assms have "map_of m k = None"
    by (simp add: key_in_def map_of_eq_None_iff)
  with assms show ?thesis
    by (simp add: addToConfig_def get_prop_def map_add_def)
qed

text \<open>
  C4 (as stated, refuted): the claim says that for every map \<open>m\<close> the binding of \<open>k\<close>
  after \<open>set(m, k, v1); set(m, k, v2)\<close> is \<open>v1\<close>. On the map \<open>{k: 0}\<close> with
  \<open>v1 = 1\<close> and \<open>v2 = 2\<close> the binding stays \<open>0\<close>: the first write is ignored as well.
\<close>

theorem addToConfig_twice_counterexample:
  "get_prop (addToConfig (addToConfig [(''k'', JNum 0)] ''k'' (JNum 1)) ''k'' (JNum 2)) ''k''
     = JNum 0
   \<and> get_prop (addToConfig (addToConfig [(''k'', JNum 0)] ''k'' (JNum 1)) ''k'' (JNum 2)) ''k''
     \<noteq> JNum 1"
  by (simp add: addToConfig_def key_in_def get_prop_def)

text \<open>
  C4 (amended): for every config map \<open>m\<close>, key \<open>k\<close> and values \<open>v1\<close>, \<open>v2\<close>, the second
  \<open>set\<close> at \<open>k\<close> is the identity on the map, and after both calls \<open>m[k]\<close> is \<open>v1\<close> when
  \<open>k\<close> was absent from \<open>m\<close> (by the \<open>in\<close> test) and the binding \<open>m\<close> already had
  otherwise: no write overwrites an earlier one.
\<close>

theorem addToConfig_twice:
  "addToConfig (addToConfig m k v1) k v2 = addToConfig m k v1
   \<and> get_prop (addToConfig (addToConfig m k v1) k v2) k
       = (if key_in k m then get_prop m k else v1)"
proof -
  have second: "addToConfig (addToConfig m k v1) k v2 = addToConfig m k v1"
    by (rule addToConfig_present) (rule key_in_addToConfig)
  have binding: "get_prop (addToConfig m k v1) k = (if key_in k m then get_prop m k else v1)"
  proof (cases "key_in k m")
    case True
    then show ?thesis by (simp add: addToConfig_present)
  next
    case False
    then show ?thesis by (simp add: get_prop_addToConfig_fresh)
  qed
  from second binding show ?thesis by simp
qed

theorem addToConfig_twice_witness:
  "addToConfig (addToConfig [] ''k'' (JNum 1)) ''k'' (JNum 2) = [(''k'', JNum 1)]
   \<and> get_prop (addToConfig (addToConfig [] ''k'' (JNum 1)) ''k'' (JNum 2)) ''k'' = JNum 1"
  using addToConfig_twice [of "[]" "''k''" "JNum 1" "JNum 2"]
  by (simp add: addToConfig_def key_in_def Object_prototype_keys_def)

section \<open>Lemmas on effects, objects and the final merge\<close>

lemma io_bind_Inr:
  "io_bind m f = (t, Inr y) \<longleftrightarrow> (\<exists>t1 x t2. m = (t1, Inr x) \<and> f x = (t2, Inr y) \<and> t = t1 @ t2)"
  by (cases m; cases "snd m") (auto simp: io_bind_def split: prod.splits sum.splits)


lemma io_throw_eq: "io_throw e = (t, r) \<longleftrightarrow> t = [] \<and> r = Inl e"
  by (auto simp: io_throw_def)








section \<open>The input schema\<close>

lemma z_strictObject_Some:
  "z_strictObject shape v = Some obj \<longleftrightarrow>
     v = JObj obj \<and> list_all (\<lambda>k. k \<in> set shape) (map fst obj)"
  by (auto simp: z_strictObject_def split: jsval.splits)

text \<open>
  Both discriminated unions of the schema have an option whose discriminator property
  has no literal value, so each throws on every object it is asked to parse; and
  \<open>camoufoxLaunchOptions\<close> hands \<open>safeParse\<close> an object on every call.
\<close>

lemma zodCamoufoxLaunchOptions_throws: "zodCamoufoxLaunchOptions w (JObj obj) = Threw"
  by (simp add: zodCamoufoxLaunchOptions_def z_discriminatedUnion_def)

lemma ip_union_throws: "ip_union w (JObj obj) = Threw"
  by (simp add: ip_union_def z_discriminatedUnion_def)

lemma geoip_schema_boolean: "geoip_schema w (JBool b) = Valid (GeoBool b)"
  by (simp add: geoip_schema_def z_boolean_def)

lemma geoip_schema_object: "geoip_schema w (JObj obj) = Threw"
  by (simp add: geoip_schema_def z_boolean_def ip_union_throws)

lemma geoip_schema_undefined: "geoip_schema w JUndefined = Invalid"
  by (simp add: geoip_schema_def z_boolean_def ip_union_def z_discriminatedUnion_def)

lemma has_proxy_variant_geoip:
  "obj_get obj ''geoip'' = JUndefined \<Longrightarrow> has_proxy_variant w (JObj obj) = Invalid"
  by (simp add: has_proxy_variant_def geoip_schema_undefined)

lemma camoufoxLaunchOptions_throws:
  "camoufoxLaunchOptions w arg = ([], Inl DiscriminatedUnionThrew)"
  by (simp add: camoufoxLaunchOptions_def zodCamoufoxLaunchOptions_throws io_throw_def)

text \<open>
  C5 (the code departs from the claim): on an input with a proxy and no \<open>geoip\<close> the
  claim has validation fail and the function throw the validation error of main.ts line
  197. The option of the schema that has a proxy does require \<open>geoip\<close>
  (\<open>has_proxy_variant_geoip\<close>), but the union that holds it is declared on a
  discriminator without literal values: \<open>safeParse\<close> throws zod's own error at line
  188, before any operation, on this input as on the same input with \<open>geoip: true\<close>
  and on the empty input. Line 197 is never reached.
\<close>

theorem camoufoxLaunchOptions_proxy_without_geoip:
  "camoufoxLaunchOptions sample_world
     [(''proxy'', JObj [(''server'', JStr ''http://proxy.example.com:3128/'')])]
   = ([], Inl DiscriminatedUnionThrew)
   \<and> DiscriminatedUnionThrew \<noteq> ValidationError
   \<and> camoufoxLaunchOptions sample_world
       [(''proxy'', JObj [(''server'', JStr ''http://proxy.example.com:3128/'')]),
        (''geoip'', JBool True)]
     = ([], Inl DiscriminatedUnionThrew)
   \<and> camoufoxLaunchOptions sample_world [] = ([], Inl DiscriminatedUnionThrew)"
  by (simp add: camoufoxLaunchOptions_throws)

section \<open>The body of the function, after validation\<close>











section \<open>The final environment map\<close>




section \<open>The public IP resolver\<close>





text \<open>
  C7: on an explicit IP object, \<open>getPublicIP\<close> returns each family of the input
  unchanged and \<open>false\<close> for an absent one, and performs no request (its list of
  operations is empty). The input is an IpSpec: each family it has is a literal the
  pattern accepts; the patterns accept no empty string. The instance of the spec,
  \<open>{ipv4: "1.2.3.4"}\<close>, is the theorem at \<open>a = Some ''1.2.3.4''\<close> and \<open>b = None\<close>.
\<close>

theorem getPublicIP_explicit:
  assumes "\<not> zod_ipv4 w []" and "\<not> zod_ipv6 w []"
    and "case a of None \<Rightarrow> True | Some s \<Rightarrow> zod_ipv4 w s"
    and "case b of None \<Rightarrow> True | Some s \<Rightarrow> zod_ipv6 w s"
  shows "getPublicIP w (GeoIP a b) p = ([], Inr \<lparr>ipv4 = a, ipv6 = b\<rparr>)"
proof -
  from assms have a: "or_false a = a" and b: "or_false b = b"
    by (auto simp: or_false_def split: option.splits)
  from assms have "ipInputObject w (GeoIP a b) = Some (a, b)"
    by (simp add: ipInputObject_def)
  with assms a b show ?thesis
    by (simp add: getPublicIP_def ipOutputObject_def io_return_def)
qed

theorem getPublicIP_explicit_witness:
  "\<not> zod_ipv4 sample_world [] \<and> \<not> zod_ipv6 sample_world []
   \<and> zod_ipv4 sample_world ''1.2.3.4''
   \<and> getPublicIP sample_world (GeoIP (Some ''1.2.3.4'') None) None
       = ([], Inr \<lparr>ipv4 = Some ''1.2.3.4'', ipv6 = None\<rparr>)"
proof -
  have 1: "\<not> zod_ipv4 sample_world []" by code_simp
  have 2: "\<not> zod_ipv6 sample_world []" by code_simp
  have 3: "zod_ipv4 sample_world ''1.2.3.4''" by code_simp
  from getPublicIP_explicit [of sample_world "Some ''1.2.3.4''" None None, OF 1 2] 3 1 2
  show ?thesis by simp
qed

text \<open>The one input on which the explicit branch returns no address: the object with
  no family, which \<open>ipInputObject\<close> accepts.\<close>

lemma getPublicIP_no_family:
  "getPublicIP w (GeoIP None None) p = ([], Inr \<lparr>ipv4 = None, ipv6 = None\<rparr>)"
  by (simp add: getPublicIP_def ipInputObject_def ipOutputObject_def or_false_def
      io_return_def)



text \<open>What one pass of the detection loop does with each kind of answer.\<close>

lemma detect_rejected:
  "ky_get w customKy service = Rejected \<Longrightarrow>
   detect w customKy (service # services) sets
     = ([HttpGet service], Inl (RequestRejected service))"
  by (cases sets) simp

lemma detect_skips:
  assumes "ky_get w customKy service = Response ok body"
    and "\<not> ok \<or> (\<not> zod_ipv4 w (trim body) \<and> \<not> zod_ipv6 w (trim body))"
  shows "detect w customKy (service # services) (ipv4Set, ipv6Set)
     = (HttpGet service # fst (detect w customKy services (ipv4Set, ipv6Set)),
        snd (detect w customKy services (ipv4Set, ipv6Set)))"
  using assms by (auto simp: io_bind_def Let_def split: prod.splits sum.splits)

lemma ky_get_not_ok:
  "http_get w customKy service = Answer False body \<Longrightarrow> ky_get w customKy service = Rejected"
  by (simp add: ky_get_def)

lemma ky_get_no_response:
  "http_get w customKy service = NoResponse \<Longrightarrow> ky_get w customKy service = Rejected"
  by (simp add: ky_get_def)

lemma ky_get_Response: "ky_get w customKy service = Response ok body \<Longrightarrow> ok"
  by (auto simp: ky_get_def split: answer.splits if_splits)

text \<open>
  C2 (the code departs from the claim): call \<open>getPublicIP(true, undefined)\<close> where the
  first service gives no response, or a response that is not OK, while every other
  service answers \<open>1.2.3.4\<close>. The claim has the loop skip the first service and resolve
  the address. The code awaits the request with no handler and leaves ky to throw on a
  status that is not OK, so in both cases the rejection leaves \<open>getPublicIP\<close> after one
  request and the \<open>ok\<close> guard never sees \<open>false\<close>. Only a body that is no address, in
  an OK response, is skipped as claimed (the third service of the concrete world).
\<close>

theorem getPublicIP_request_rejected:
  "getPublicIP
     (sample_world\<lparr>http_get := (\<lambda>customKy service.
        if service = ''https://api.ipify.org'' then NoResponse
        else Answer True ''1.2.3.4'')\<rparr>)
     (GeoBool True) None
   = ([HttpGet ''https://api.ipify.org''], Inl (RequestRejected ''https://api.ipify.org''))
   \<and> getPublicIP
     (sample_world\<lparr>http_get := (\<lambda>customKy service.
        if service = ''https://api.ipify.org'' then Answer False ''Service Unavailable''
        else Answer True ''1.2.3.4'')\<rparr>)
     (GeoBool True) None
   = ([HttpGet ''https://api.ipify.org''], Inl (RequestRejected ''https://api.ipify.org''))
   \<and> http_get sample_world Direct ''https://icanhazip.com''
     = Answer True ''<html>blocked</html>''
   \<and> getPublicIP sample_world (GeoBool True) None
   = (map HttpGet whatsMyIPList, Inr \<lparr>ipv4 = Some ''1.2.3.4'', ipv6 = None\<rparr>)"
  by code_simp

section \<open>The geo-locale resolver\<close>

text \<open>The failures of the resolver, once an address is picked.\<close>

lemma getGeolocationAndLocale_not_regular:
  assumes "pickPubIP ipObject = Inr pubIP"
    and "fs_stat w (mmdbFile w directory) = Some kind" and "kind \<noteq> RegularFile"
  shows "getGeolocationAndLocale w ipObject directory
     = ([Stat (mmdbFile w directory)], Inl DatabaseNotFound)"
  using assms by (simp add: getGeolocationAndLocale_def stat_def io_bind_def io_throw_def)

lemma getGeolocationAndLocale_missing:
  assumes "pickPubIP ipObject = Inr pubIP" and "fs_stat w (mmdbFile w directory) = None"
  shows "getGeolocationAndLocale w ipObject directory
     = ([Stat (mmdbFile w directory)], Inl (StatRejected (mmdbFile w directory)))"
  using assms by (simp add: getGeolocationAndLocale_def stat_def io_bind_def)

lemma getGeolocationAndLocale_no_data:
  assumes "pickPubIP ipObject = Inr pubIP"
    and "fs_stat w (mmdbFile w directory) = Some RegularFile"
    and "fs_readFile w (mmdbFile w directory) = Some buffer" and "Reader_ok w buffer"
    and "Reader_get_city w buffer pubIP = None \<or> Reader_get_country w buffer pubIP = None"
  shows "snd (getGeolocationAndLocale w ipObject directory) = Inl (NoGeoData pubIP)"
  using assms
  by (auto simp: getGeolocationAndLocale_def stat_def readFile_def io_bind_def io_throw_def
      split: option.splits)

lemma getGeolocationAndLocale_unknown_country:
  assumes "pickPubIP ipObject = Inr pubIP"
    and "fs_stat w (mmdbFile w directory) = Some RegularFile"
    and "fs_readFile w (mmdbFile w directory) = Some buffer" and "Reader_ok w buffer"
    and "Reader_get_city w buffer pubIP = Some city" and "location city = Some loc"
    and "Reader_get_country w buffer pubIP = Some cr" and "country cr = Some c"
    and "clm_getCountryByAlpha2 w (iso_code c) = None"
  shows "snd (getGeolocationAndLocale w ipObject directory) = Inl UnknownCountryCode"
  using assms
  by (simp add: getGeolocationAndLocale_def stat_def readFile_def io_bind_def io_throw_def)

text \<open>
  C3 (the code departs from the claim): when the database file does not exist,
  \<open>fs.stat\<close> rejects and that rejection is what \<open>getGeolocationAndLocale\<close> fails
  with, not the "'.mmdb' file not found" error; that error is raised only for a path that
  exists and is no regular file. Here the executable is in place and only
  \<open>GeoLite2-City.mmdb\<close> is missing beside it.
\<close>

theorem getGeolocationAndLocale_missing_database:
  "fs_stat
     (sample_world\<lparr>fs_stat := (\<lambda>p.
        if p = ''/opt/camoufox/GeoLite2-City.mmdb'' then None else sample_stat p)\<rparr>)
     ''/opt/camoufox/GeoLite2-City.mmdb'' = None
   \<and> getGeolocationAndLocale
     (sample_world\<lparr>fs_stat := (\<lambda>p.
        if p = ''/opt/camoufox/GeoLite2-City.mmdb'' then None else sample_stat p)\<rparr>)
     \<lparr>ipv4 = Some ''1.2.3.4'', ipv6 = None\<rparr> ''/opt/camoufox/camoufox-bin''
   = ([Stat ''/opt/camoufox/GeoLite2-City.mmdb''],
      Inl (StatRejected ''/opt/camoufox/GeoLite2-City.mmdb''))
   \<and> StatRejected ''/opt/camoufox/GeoLite2-City.mmdb'' \<noteq> DatabaseNotFound
   \<and> getGeolocationAndLocale
     (sample_world\<lparr>fs_stat := (\<lambda>p.
        if p = ''/opt/camoufox/GeoLite2-City.mmdb'' then Some Directory else sample_stat p)\<rparr>)
     \<lparr>ipv4 = Some ''1.2.3.4'', ipv6 = None\<rparr> ''/opt/camoufox/camoufox-bin''
   = ([Stat ''/opt/camoufox/GeoLite2-City.mmdb''], Inl DatabaseNotFound)"
  by code_simp

section \<open>The cache preferences\<close>




section \<open>The bypass list\<close>

lemma js_split_nonempty: "js_split c xs \<noteq> []"
  by (induction xs) (auto split: list.splits)

lemma chars_js_split: "\<Union> (set ` set (js_split c xs)) = set xs - {c}"
proof (induction xs)
  case Nil
  then show ?case by simp
next
  case (Cons x xs)
  obtain seg segs where split: "js_split c xs = seg # segs"
    using js_split_nonempty [of c xs] by (cases "js_split c xs") auto
  with Cons show ?case by auto
qed

lemma bypass_loop_all: "bypass_loop w ds = list_all (zod_domain w) ds"
  by (induction ds) auto

lemma bypass_refine_no_space:
  assumes "\<forall>s. zod_domain w s \<longrightarrow> CHR '' '' \<notin> set s" and "CHR '' '' \<in> set bypassList"
  shows "\<not> bypass_refine w bypassList"
proof -
  from assms(2) have "CHR '' '' \<in> \<Union> (set ` set (js_split CHR '','' bypassList))"
    by (simp add: chars_js_split)
  then obtain seg where "seg \<in> set (js_split CHR '','' bypassList)" "CHR '' '' \<in> set seg"
    by auto
  with assms(1) show ?thesis
    by (auto simp: bypass_refine_def bypass_loop_all list_all_iff)
qed

lemma sample_domain_no_space: "sample_domain s \<Longrightarrow> CHR '' '' \<notin> set s"
proof
  assume dom: "sample_domain s" and space: "CHR '' '' \<in> set s"
  from space have "CHR '' '' \<in> \<Union> (set ` set (js_split CHR ''.'' s))"
    by (simp add: chars_js_split)
  then obtain l where "l \<in> set (js_split CHR ''.'' s)" and "CHR '' '' \<in> set l"
    by auto
  with dom have "sample_label_char CHR '' ''"
    by (auto simp: sample_domain_def list_all_iff)
  then show False by (simp add: sample_label_char_def)
qed

text \<open>
  C10: the refinement of \<open>bypass\<close> splits on the comma and tests each raw segment,
  untrimmed: \<open>"a.com, b.com"\<close> splits into \<open>"a.com"\<close> and \<open>" b.com"\<close>. For a domain
  pattern that accepts no string with a space, a bypass string with a space next to a
  comma fails the refinement, the \<open>bypass\<close> schema, and the schema of every proxy object
  that holds it.
\<close>

theorem bypass_untrimmed:
  assumes pattern: "\<forall>s. zod_domain w s \<longrightarrow> CHR '' '' \<notin> set s"
    and adjacent: "bypassList = u @ '', '' @ v \<or> bypassList = u @ '' ,'' @ v"
  shows "js_split CHR '','' ''a.com, b.com'' = [''a.com'', '' b.com'']
    \<and> \<not> bypass_refine w bypassList
    \<and> bypass_schema w (JStr bypassList) = None
    \<and> (\<forall>obj. obj_get obj ''bypass'' = JStr bypassList \<longrightarrow> proxy_schema w (JObj obj) = None)"
proof -
  from adjacent have "CHR '' '' \<in> set bypassList" by auto
  with pattern have refine: "\<not> bypass_refine w bypassList"
    by (rule bypass_refine_no_space)
  then have schema: "bypass_schema w (JStr bypassList) = None"
    by (simp add: bypass_schema_def)
  then have "proxy_schema w (JObj obj) = None" if "obj_get obj ''bypass'' = JStr bypassList" for obj
    using that by (auto simp: proxy_schema_def z_optional_def z_strictObject_Some split: option.splits)
  with refine schema show ?thesis by simp
qed


theorem bypass_untrimmed_witness:
  "zod_domain sample_world ''a.com'' \<and> zod_domain sample_world ''b.com''
   \<and> map trim (js_split CHR '','' ''a.com, b.com'') = [''a.com'', ''b.com'']
   \<and> \<not> bypass_refine sample_world ''a.com, b.com''
   \<and> bypass_refine sample_world ''a.com,b.com''
   \<and> proxy_schema sample_world
       (JObj [(''server'', JStr ''http://proxy.example.com:3128''),
              (''bypass'', JStr ''a.com, b.com'')]) = None
   \<and> proxy_schema sample_world
       (JObj [(''server'', JStr ''http://proxy.example.com:3128''),
              (''bypass'', JStr ''a.com,b.com'')])
     = Some \<lparr>server = ''http://proxy.example.com:3128'', username = None, password = None,
             bypass = Some ''a.com,b.com''\<rparr>"
proof -
  have pattern: "\<forall>s. zod_domain sample_world s \<longrightarrow> CHR '' '' \<notin> set s"
    by (simp add: sample_world_def sample_domain_no_space)
  have adjacent: "''a.com, b.com'' = ''a.com'' @ '', '' @ ''b.com''
      \<or> ''a.com, b.com'' = ''a.com'' @ '' ,'' @ ''b.com''"
    by simp
  have get: "obj_get [(''server'', JStr ''http://proxy.example.com:3128''),
              (''bypass'', JStr ''a.com, b.com'')] ''bypass'' = JStr ''a.com, b.com''"
    by (simp add: obj_get_def)
  have segments: "zod_domain sample_world ''a.com''" "zod_domain sample_world ''b.com''"
    "map trim (js_split CHR '','' ''a.com, b.com'') = [''a.com'', ''b.com'']"
    "bypass_refine sample_world ''a.com,b.com''"
    by code_simp+
  have accepted: "proxy_schema sample_world
       (JObj [(''server'', JStr ''http://proxy.example.com:3128''),
              (''bypass'', JStr ''a.com,b.com'')])
     = Some \<lparr>server = ''http://proxy.example.com:3128'', username = None, password = None,
             bypass = Some ''a.com,b.com''\<rparr>"
    by code_simp
  from bypass_untrimmed [OF pattern adjacent] get segments accepted show ?thesis
    by simp
qed

section \<open>The executable and the database file\<close>

lemma checkIfCamoufoxIsInstalled_eq:
  "checkIfCamoufoxIsInstalled w D =
     (case fs_stat w (path_parse_dir w D) of
        None \<Rightarrow> ([Stat (path_parse_dir w D)], Inl (StatRejected (path_parse_dir w D)))
      | Some k \<Rightarrow>
          if k = Directory then
            (case fs_stat w (path_resolve w [path_parse_dir w D, camoufoxExecutable (process_platform w)]) of
               None \<Rightarrow>
                 ([Stat (path_parse_dir w D),
                   Stat (path_resolve w [path_parse_dir w D, camoufoxExecutable (process_platform w)])],
                  Inl (StatRejected (path_resolve w [path_parse_dir w D, camoufoxExecutable (process_platform w)])))
             | Some k' \<Rightarrow>
                 ([Stat (path_parse_dir w D),
                   Stat (path_resolve w [path_parse_dir w D, camoufoxExecutable (process_platform w)])],
                  Inr (if k' = RegularFile
                       then or_false (Some (path_resolve w [path_parse_dir w D, camoufoxExecutable (process_platform w)]))
                       else None)))
          else ([Stat (path_parse_dir w D)], Inr None))"
  by (simp add: checkIfCamoufoxIsInstalled_def validatedExecutablePath_def stat_def io_bind_def
      io_return_def or_false_def split: option.splits)

lemma launchPath_eq:
  "launchPath w customInstall =
     io_bind
       (checkIfCamoufoxIsInstalled w
          (case or_false customInstall of Some dir \<Rightarrow> dir | None \<Rightarrow> getDefaultInstallDirectory w))
       (\<lambda>camoufoxInstalled.
          case or_false camoufoxInstalled of
            Some path \<Rightarrow> io_return path
          | None \<Rightarrow> io_throw NotInstalled)"
  by (simp add: launchPath_def split: option.splits)

lemma launchPath_success:
  assumes D: "D = (case or_false customInstall of Some dir \<Rightarrow> dir | None \<Rightarrow> getDefaultInstallDirectory w)"
    and exe: "exe = path_resolve w [path_parse_dir w D, camoufoxExecutable (process_platform w)]"
    and nonempty: "exe \<noteq> []"
  shows "(\<exists>t. launchPath w customInstall = (t, Inr p)) \<longleftrightarrow>
      fs_stat w (path_parse_dir w D) = Some Directory \<and> fs_stat w exe = Some RegularFile \<and> p = exe"
  using nonempty unfolding launchPath_eq D [symmetric] checkIfCamoufoxIsInstalled_eq exe [symmetric]
  by (auto simp: io_bind_def io_return_def io_throw_def or_false_def split: option.splits if_splits)

lemma launchPath_first:
  assumes D: "D = (case or_false customInstall of Some dir \<Rightarrow> dir | None \<Rightarrow> getDefaultInstallDirectory w)"
  shows "\<exists>rest. fst (launchPath w customInstall) = Stat (path_parse_dir w D) # rest"
  unfolding launchPath_eq D [symmetric] checkIfCamoufoxIsInstalled_eq
  by (auto simp: io_bind_def io_return_def io_throw_def or_false_def split: option.splits if_splits)

lemma geo_first:
  assumes "pickPubIP ipObject = Inr a"
  shows "\<exists>rest r. getGeolocationAndLocale w ipObject directory = (Stat (mmdbFile w directory) # rest, r)"
  using assms
  by (cases "fs_stat w (mmdbFile w directory)")
     (auto simp: getGeolocationAndLocale_def stat_def io_bind_def io_throw_def split: prod.splits sum.splits)

lemma geo_success:
  assumes "getGeolocationAndLocale w ipObject directory = (t, Inr g)"
  shows "fs_stat w (mmdbFile w directory) = Some RegularFile
    \<and> (\<exists>rest. t = Stat (mmdbFile w directory) # rest)"
  using assms
  by (auto simp: getGeolocationAndLocale_def stat_def io_bind_Inr io_throw_eq
      split: sum.splits option.splits if_splits)

text \<open>
  C9 (as stated, refuted): the claim has \<open>launchPath\<close> succeed exactly when
  \<open>dirname(D)\<close> is a directory and \<open>resolve(dirname(D), executableName)\<close> is a
  regular file. The code takes \<open>path.parse(D).dir\<close>, which differs from
  \<open>dirname(D)\<close> on a \<open>D\<close> of one component: for \<open>D = "camoufox"\<close> the first is the
  empty string and the second is \<open>"."\<close>. On the concrete world \<open>"."\<close> is a directory
  and \<open>resolve(".", "camoufox-bin")\<close> is a regular file, yet \<open>launchPath\<close> asks for
  the status of the empty path, which is rejected, and fails.
\<close>

theorem executable_and_database_paths_counterexample:
  "path_dirname sample_world ''camoufox'' = ''.''
   \<and> path_parse_dir sample_world ''camoufox'' = []
   \<and> fs_stat sample_world (path_dirname sample_world ''camoufox'') = Some Directory
   \<and> path_resolve sample_world
       [path_dirname sample_world ''camoufox'',
        camoufoxExecutable (process_platform sample_world)]
     = ''/work/camoufox-bin''
   \<and> fs_stat sample_world ''/work/camoufox-bin'' = Some RegularFile
   \<and> launchPath sample_world (Some ''camoufox'') = ([Stat []], Inl (StatRejected []))"
  by code_simp

text \<open>
  C9 (amended): let \<open>D\<close> be the directory \<open>launchPath\<close> works on (the caller's, or the
  platform default when none or an empty one is given) and \<open>exe\<close> the path
  \<open>resolve(parse(D).dir, executableName)\<close>, which \<open>path.resolve\<close> never makes empty;
  the executable is named \<open>camoufox.exe\<close>, \<open>camoufox\<close> or \<open>camoufox-bin\<close> by
  platform. \<open>launchPath\<close> first asks for the status of \<open>parse(D).dir\<close>, the directory
  \<open>D\<close> without its final component (the empty path, not \<open>"."\<close>, when \<open>D\<close> has one
  component), and it returns a path exactly when that is a directory and \<open>exe\<close> is a
  regular file; the path is \<open>exe\<close>. The geo-locale resolver applies the same rule to the
  path it is given: it succeeds only when
  \<open>resolve(parse(directory).dir, "GeoLite2-City.mmdb")\<close> is a regular file, the first
  operation it performs being the status of that path.
\<close>

theorem executable_and_database_paths:
  assumes D: "D = (case or_false customInstall of
                     Some dir \<Rightarrow> dir | None \<Rightarrow> getDefaultInstallDirectory w)"
    and exe: "exe = path_resolve w [path_parse_dir w D, camoufoxExecutable (process_platform w)]"
    and nonempty: "exe \<noteq> []"
  shows "((\<exists>t. launchPath w customInstall = (t, Inr p)) \<longleftrightarrow>
            fs_stat w (path_parse_dir w D) = Some Directory
            \<and> fs_stat w exe = Some RegularFile \<and> p = exe)
    \<and> (\<exists>rest. fst (launchPath w customInstall) = Stat (path_parse_dir w D) # rest)
    \<and> (getGeolocationAndLocale w ipObject directory = (t, Inr g) \<longrightarrow>
          fs_stat w (path_resolve w [path_parse_dir w directory, ''GeoLite2-City.mmdb''])
            = Some RegularFile
          \<and> (\<exists>rest. t = Stat (path_resolve w [path_parse_dir w directory,
                                  ''GeoLite2-City.mmdb'']) # rest))
    \<and> camoufoxExecutable Win32 = ''camoufox.exe''
    \<and> camoufoxExecutable Darwin = ''camoufox''
    \<and> camoufoxExecutable Linux = ''camoufox-bin''"
proof -
  note success = launchPath_success [OF D exe nonempty, of p]
  note first = launchPath_first [OF D]
  have geo: "getGeolocationAndLocale w ipObject directory = (t, Inr g) \<longrightarrow>
          fs_stat w (path_resolve w [path_parse_dir w directory, ''GeoLite2-City.mmdb''])
            = Some RegularFile
          \<and> (\<exists>rest. t = Stat (path_resolve w [path_parse_dir w directory,
                                  ''GeoLite2-City.mmdb'']) # rest)"
    using geo_success [of w ipObject directory t g] by (simp add: mmdbFile_def)
  have names: "camoufoxExecutable Win32 = ''camoufox.exe''"
    "camoufoxExecutable Darwin = ''camoufox''" "camoufoxExecutable Linux = ''camoufox-bin''"
    by (simp_all add: camoufoxExecutable_def)
  from success first geo names show ?thesis by (intro conjI)
qed

theorem executable_and_database_paths_witness:
  "fs_stat sample_world ''/opt/camoufox'' = Some Directory
   \<and> fs_stat sample_world ''/opt/camoufox/camoufox-bin'' = Some RegularFile
   \<and> path_parse_dir sample_world ''/opt/camoufox/dist'' = ''/opt/camoufox''
   \<and> (\<exists>t. launchPath sample_world (Some ''/opt/camoufox/dist'')
            = (t, Inr ''/opt/camoufox/camoufox-bin''))
   \<and> fst (launchPath sample_world (Some ''/opt/camoufox/dist''))
       = [Stat ''/opt/camoufox'', Stat ''/opt/camoufox/camoufox-bin'']
   \<and> getGeolocationAndLocale sample_world \<lparr>ipv4 = Some ''1.2.3.4'', ipv6 = None\<rparr>
         ''/opt/camoufox/camoufox-bin''
       = ([Stat ''/opt/camoufox/GeoLite2-City.mmdb'',
           ReadFile ''/opt/camoufox/GeoLite2-City.mmdb''],
          Inr \<lparr>longitude = 151, latitude = - 34, accuracy = 1000,
               timezone = Some ''Australia/Sydney'', locales = ''en_AU''\<rparr>)
   \<and> fs_stat sample_world ''/opt/camoufox/GeoLite2-City.mmdb'' = Some RegularFile"
proof -
  have D: "''/opt/camoufox/dist'' =
      (case or_false (Some ''/opt/camoufox/dist'') of
         Some dir \<Rightarrow> dir | None \<Rightarrow> getDefaultInstallDirectory sample_world)"
    by (simp add: or_false_def)
  have dir: "path_parse_dir sample_world ''/opt/camoufox/dist'' = ''/opt/camoufox''"
    by code_simp
  have exe: "''/opt/camoufox/camoufox-bin'' =
      path_resolve sample_world
        [path_parse_dir sample_world ''/opt/camoufox/dist'',
         camoufoxExecutable (process_platform sample_world)]"
    by code_simp
  have nonempty: "''/opt/camoufox/camoufox-bin'' \<noteq> []" by simp
  have mmdb: "path_resolve sample_world
      [path_parse_dir sample_world ''/opt/camoufox/camoufox-bin'', ''GeoLite2-City.mmdb'']
    = ''/opt/camoufox/GeoLite2-City.mmdb''"
    by code_simp
  have stats: "fs_stat sample_world ''/opt/camoufox'' = Some Directory"
    "fs_stat sample_world ''/opt/camoufox/camoufox-bin'' = Some RegularFile"
    by code_simp+
  have trace: "fst (launchPath sample_world (Some ''/opt/camoufox/dist''))
       = [Stat ''/opt/camoufox'', Stat ''/opt/camoufox/camoufox-bin'']"
    by code_simp
  have geo: "getGeolocationAndLocale sample_world \<lparr>ipv4 = Some ''1.2.3.4'', ipv6 = None\<rparr>
         ''/opt/camoufox/camoufox-bin''
       = ([Stat ''/opt/camoufox/GeoLite2-City.mmdb'',
           ReadFile ''/opt/camoufox/GeoLite2-City.mmdb''],
          Inr \<lparr>longitude = 151, latitude = - 34, accuracy = 1000,
               timezone = Some ''Australia/Sydney'', locales = ''en_AU''\<rparr>)"
    by code_simp
  note at_input = executable_and_database_paths
    [OF D exe nonempty,
     where p = "''/opt/camoufox/camoufox-bin''"
       and ipObject = "\<lparr>ipv4 = Some ''1.2.3.4'', ipv6 = None\<rparr>"
       and directory = "''/opt/camoufox/camoufox-bin''"
       and t = "[Stat ''/opt/camoufox/GeoLite2-City.mmdb'',
                 ReadFile ''/opt/camoufox/GeoLite2-City.mmdb'']"
       and g = "\<lparr>longitude = 151, latitude = - 34, accuracy = 1000,
                 timezone = Some ''Australia/Sydney'', locales = ''en_AU''\<rparr>"]
  from at_input dir stats
  have launch: "\<exists>t. launchPath sample_world (Some ''/opt/camoufox/dist'')
            = (t, Inr ''/opt/camoufox/camoufox-bin'')"
    by simp
  from at_input geo mmdb
  have regular: "fs_stat sample_world ''/opt/camoufox/GeoLite2-City.mmdb'' = Some RegularFile"
    by simp
  from dir stats trace geo launch regular show ?thesis by (intro conjI)
qed

end
